theory Spec2Isabelle
  imports Main
begin

section \<open>The attribute-set logger of \<^verbatim>\<open>src/blackhole/logger.hpp\<close>\<close>

text \<open>
  \<^verbatim>\<open>composite_logger_t<T, FilterArgs...>\<close> keeps an enabled flag and a filter over a combined
  attribute view and the filter arguments. The attribute containers, the record type and the
  members \<^verbatim>\<open>populate\<close> and \<^verbatim>\<open>with_scoped\<close> are declared in headers that are not part of the
  sources at hand; the containers are association lists here, and the absent members are
  parameters of \<open>open_record\<close>, collected in \<open>ipp\<close>.
\<close>

text \<open>
  An attribute value is a tagged value; the floating-point alternative is left out, no
  property below reads it.
\<close>

datatype attribute_value = Null | Bool bool | SInt int | UInt nat | Str string

type_synonym set_t = "(string \<times> attribute_value) list"

text \<open>
  A record is either the value of \<^verbatim>\<open>record_t::invalid()\<close> or the value built by
  \<^verbatim>\<open>record_t(internal, external)\<close>; a record is called valid when it is not the former.
\<close>

datatype attr_record_t = invalid | attr_record set_t set_t

fun valid :: "attr_record_t \<Rightarrow> bool" where
  "valid invalid = False"
| "valid (attr_record internal external) = True"

text \<open>What \<open>open_record\<close> evaluates, in order: the observable steps of one call.\<close>

datatype step = WithScoped | Filter | Populate | PopulateAdditional | PopulateExternal

record ('view, 'args) composite_logger_t =
  d_enabled :: bool
  d_filter :: "'view \<Rightarrow> 'args \<Rightarrow> bool"

record 'view ipp =
  with_scoped :: "set_t \<Rightarrow> 'view"
  populate :: "set_t \<Rightarrow> set_t"
  populate_external :: "set_t \<Rightarrow> set_t"

text \<open>The constructor \<^verbatim>\<open>composite_logger_t(filter_type filter)\<close>.\<close>

definition composite_logger :: "('view \<Rightarrow> 'args \<Rightarrow> bool) \<Rightarrow> ('view, 'args) composite_logger_t" where
  "composite_logger f = \<lparr>d_enabled = True, d_filter = f\<rparr>"

text \<open>\<^verbatim>\<open>void enabled(bool enable)\<close> and \<^verbatim>\<open>void set_filter(filter_type filter)\<close>.\<close>

definition set_enabled :: "bool \<Rightarrow> ('view, 'args) composite_logger_t \<Rightarrow> ('view, 'args) composite_logger_t" where
  "set_enabled enable d = d\<lparr>d_enabled := enable\<rparr>"

definition set_filter :: "('view \<Rightarrow> 'args \<Rightarrow> bool) \<Rightarrow> ('view, 'args) composite_logger_t \<Rightarrow> ('view, 'args) composite_logger_t" where
  "set_filter f d = d\<lparr>d_filter := f\<rparr>"

text \<open>
  \<^verbatim>\<open>record_t open_record(attribute::set_t external, FilterArgs... args) const\<close>. The result is
  the record together with the steps the call went through. \<open>additional\<close> is the derived
  class's \<^verbatim>\<open>populate_additional\<close>.
\<close>

definition open_record ::
  "'view ipp \<Rightarrow> (set_t \<Rightarrow> 'args \<Rightarrow> set_t) \<Rightarrow> ('view, 'args) composite_logger_t \<Rightarrow>
     set_t \<Rightarrow> 'args \<Rightarrow> attr_record_t \<times> step list" where
  "open_record m additional d external args =
     (if \<not> d_enabled d then (invalid, [])
      else
        let view = with_scoped m external in
        if \<not> d_filter d view args then (invalid, [WithScoped, Filter])
        else
          let internal = populate m [];
              internal = additional internal args;
              external = populate_external m external
          in (attr_record internal external,
              [WithScoped, Filter, Populate, PopulateAdditional, PopulateExternal]))"

text \<open>
  \<^verbatim>\<open>verbose_logger_t<Level>\<close>: the composite logger with one filter argument, the level, and
  the cached threshold. \<open>underlying\<close> stands for
  \<^verbatim>\<open>static_cast<underlying_type>\<close> on the enumeration \<open>'l\<close>.
\<close>

record ('view, 'l) verbose_logger_t =
  base :: "('view, 'l) composite_logger_t"
  level :: int

definition default_filter :: "('l \<Rightarrow> int) \<Rightarrow> 'l \<Rightarrow> 'view \<Rightarrow> 'l \<Rightarrow> bool" where
  "default_filter underlying threshold view lvl \<longleftrightarrow> underlying lvl \<ge> underlying threshold"

definition verbose_logger :: "('l \<Rightarrow> int) \<Rightarrow> 'l \<Rightarrow> ('view, 'l) verbose_logger_t" where
  "verbose_logger underlying lvl =
     \<lparr>base = composite_logger (default_filter underlying lvl), level = underlying lvl\<rparr>"

definition verbose_enabled :: "bool \<Rightarrow> ('view, 'l) verbose_logger_t \<Rightarrow> ('view, 'l) verbose_logger_t" where
  "verbose_enabled enable lg = lg\<lparr>base := set_enabled enable (base lg)\<rparr>"

text \<open>
  \<^verbatim>\<open>populate_additional\<close> of the verbose logger appends the severity keyword's attribute.
\<close>

definition populate_additional :: "('l \<Rightarrow> int) \<Rightarrow> set_t \<Rightarrow> 'l \<Rightarrow> set_t" where
  "populate_additional underlying internal lvl = internal @ [(''severity'', SInt (underlying lvl))]"

text \<open>
  \<^verbatim>\<open>record_t open_record(level_type level, attribute::set_t external) const\<close> of the verbose
  logger forwards to the base class.
\<close>

definition verbose_open_record ::
  "'view ipp \<Rightarrow> ('l \<Rightarrow> int) \<Rightarrow> ('view, 'l) verbose_logger_t \<Rightarrow> 'l \<Rightarrow> set_t \<Rightarrow>
     attr_record_t \<times> step list" where
  "verbose_open_record m underlying lg lvl external =
     open_record m (populate_additional underlying) (base lg) external lvl"

text \<open>A four-level enumeration with its underlying values, for concrete instances.\<close>

datatype level_t = debug | info | warning | critical

fun level_value :: "level_t \<Rightarrow> int" where
  "level_value debug = 0"
| "level_value info = 1"
| "level_value warning = 2"
| "level_value critical = 3"

definition plain_ipp :: "set_t ipp" where
  "plain_ipp = \<lparr>with_scoped = id, populate = id, populate_external = id\<rparr>"

section \<open>The root logger of \<^verbatim>\<open>src/root.cpp\<close>\<close>

subsection \<open>Records, exceptions and the world a log call runs in\<close>

type_synonym attributes_t = set_t

text \<open>An attribute pack is the ordered list of attribute layers a record refers to.\<close>

type_synonym attribute_pack = "attributes_t list"

text \<open>
  A \<^verbatim>\<open>string_view\<close> is a pointer and a size; the default-constructed view has the null
  pointer. \<open>None\<close> is that view, \<open>Some s\<close> a view over the bytes \<open>s\<close>.
\<close>

type_synonym string_view = "string option"

text \<open>
  What a callee may throw: an exception derived from \<^verbatim>\<open>std::exception\<close>, with the text of
  \<^verbatim>\<open>what()\<close>, or anything else.
\<close>

datatype exn = std_exception string | other_exception

text \<open>
  A wall-clock instant: the whole seconds since the epoch and the microseconds within the
  second.
\<close>

record time_point =
  tp_seconds :: nat
  tp_usec :: nat

definition microseconds_since_epoch :: "time_point \<Rightarrow> nat" where
  "microseconds_since_epoch t = tp_seconds t * 1000000 + tp_usec t"

text \<open>
  Modelled from the spec: \<^verbatim>\<open>record_t\<close> (its header and implementation are absent; the tests
  in \<^verbatim>\<open>tests/record.cpp\<close> show the constructor and the accessors). The constructor takes
  severity, message view and attribute pack and captures timestamp, process id and thread
  id. The formatted message is an optional view over the rendered message, set after the
  user format callback has run: reads before that return the raw pattern. A log call
  without a format callback hands \<open>activate\<close> the null view, there is no rendered message
  then, and the message is emitted verbatim.
\<close>

record record_t =
  severity :: int
  message :: string
  rendered :: string_view
  attributes :: attribute_pack
  timestamp :: time_point
  pid :: nat
  tid :: nat

definition formatted :: "record_t \<Rightarrow> string" where
  "formatted r = (case rendered r of None \<Rightarrow> message r | Some s \<Rightarrow> s)"

definition activate :: "string_view \<Rightarrow> record_t \<Rightarrow> record_t" where
  "activate view r = (case view of None \<Rightarrow> r | Some s \<Rightarrow> r\<lparr>rendered := Some s\<rparr>)"

type_synonym filter_t = "record_t \<Rightarrow> exn + bool"

type_synonym handler_t = "record_t \<Rightarrow> exn + unit"

text \<open>
  \<^verbatim>\<open>logger_t::format_t\<close> is a callback on the writer: it gets the writer's buffer and leaves
  the buffer it has written, or throws.
\<close>

type_synonym format_t = "string \<Rightarrow> exn + string"

text \<open>\<^verbatim>\<open>struct root_logger_t::inner_t\<close>; the handler vector is \<^verbatim>\<open>const\<close>.\<close>

record inner_t =
  filter_fn :: filter_t
  handlers :: "handler_t list"

text \<open>
  The calls a log call makes to code it does not own, in order: the filter, the user format
  callback, \<^verbatim>\<open>record.activate\<close> with its argument, and \<^verbatim>\<open>execute\<close> on the handler at a
  position of the handler vector with the record it was given.
\<close>

datatype call = FilterCall | FormatCall | Activate string_view | Execute nat record_t

text \<open>
  The world outside the logger object: the \<^verbatim>\<open>inner_t\<close> objects the shared pointers point
  to, by address (\<open>used\<close> counts the allocated ones), the lines written to the two standard
  streams, the calls made so far, and what the record constructor reads from the system.
  Handlers are opaque: of a handler only its outcome is modelled, not what its sink writes.
\<close>

record world =
  cells :: "nat \<Rightarrow> inner_t"
  used :: nat
  cout :: "string list"
  cerr :: "string list"
  calls :: "call list"
  clock_now :: time_point
  getpid :: nat
  pthread_self :: nat

definition record_ctor :: "world \<Rightarrow> int \<Rightarrow> string \<Rightarrow> attribute_pack \<Rightarrow> record_t" where
  "record_ctor w sev pattern pack =
     \<lparr>severity = sev, message = pattern, rendered = None, attributes = pack,
      timestamp = clock_now w, pid = getpid w, tid = pthread_self w\<rparr>"

text \<open>
  A scoped guard owns an attribute layer and links to the previous top of the thread's
  stack. \<^verbatim>\<open>sync->context.get()\<close> is the top guard of the calling thread, or null.
\<close>

datatype scoped_t = scoped attributes_t "scoped_t option"

text \<open>
  Modelled from the spec: \<^verbatim>\<open>scoped_t::collect\<close> (absent from the sources), which prepends the
  layers of the scoped stack, innermost first, onto the pack it is given a pointer to.
\<close>

fun layers :: "scoped_t \<Rightarrow> attribute_pack" where
  "layers (scoped attrs None) = [attrs]"
| "layers (scoped attrs (Some prev)) = attrs # layers prev"

definition collect :: "scoped_t \<Rightarrow> attribute_pack \<Rightarrow> attribute_pack" where
  "collect sc pack = layers sc @ pack"

text \<open>
  The logger object: the shared pointer \<^verbatim>\<open>inner\<close>, an address, and the calling thread's slot
  of \<^verbatim>\<open>sync->context\<close>.
\<close>

record root_logger_t =
  inner :: nat
  sync_context :: "scoped_t option"

subsection \<open>Construction and filter replacement\<close>

text \<open>\<^verbatim>\<open>inner_t(handlers)\<close> installs the filter that accepts every record.\<close>

definition accept_all :: filter_t where
  "accept_all r = Inr True"

definition make_shared :: "inner_t \<Rightarrow> world \<Rightarrow> nat \<times> world" where
  "make_shared v w = (used w, w\<lparr>cells := (cells w)(used w := v), used := Suc (used w)\<rparr>)"

definition root_logger :: "handler_t list \<Rightarrow> world \<Rightarrow> root_logger_t \<times> world" where
  "root_logger hs w =
     (let (a, w) = make_shared \<lparr>filter_fn = accept_all, handlers = hs\<rparr> w
      in (\<lparr>inner = a, sync_context = None\<rparr>, w))"

definition root_logger_with :: "filter_t \<Rightarrow> handler_t list \<Rightarrow> world \<Rightarrow> root_logger_t \<times> world" where
  "root_logger_with f hs w =
     (let (a, w) = make_shared \<lparr>filter_fn = f, handlers = hs\<rparr> w
      in (\<lparr>inner = a, sync_context = None\<rparr>, w))"

text \<open>
  \<^verbatim>\<open>root_logger_t::filter(filter_t fn)\<close>: \<^verbatim>\<open>sync->load\<close> copies the shared pointer,
  \<^verbatim>\<open>inner->apply\<close> assigns the filter member of the object it points to, under that object's
  lock, and \<^verbatim>\<open>sync->store\<close> writes the pointer back.
\<close>

definition root_logger_filter :: "filter_t \<Rightarrow> root_logger_t \<Rightarrow> world \<Rightarrow> root_logger_t \<times> world" where
  "root_logger_filter fn lg w =
     (let a = inner lg;
          w = w\<lparr>cells := (cells w)(a := (cells w a)\<lparr>filter_fn := fn\<rparr>)\<rparr>
      in (lg\<lparr>inner := a\<rparr>, w))"


subsection \<open>One log call\<close>

text \<open>
  The two format functors of \<^verbatim>\<open>consume\<close>: \<^verbatim>\<open>null_format_t\<close> returns the null view without
  calling anything, \<^verbatim>\<open>real_format_t\<close> calls the user callback on a fresh writer and returns
  the view over what the writer holds.
\<close>

datatype format_functor = null_format_t | real_format_t format_t

definition called :: "call \<Rightarrow> world \<Rightarrow> world" where
  "called c w = w\<lparr>calls := calls w @ [c]\<rparr>"

fun apply_format :: "format_functor \<Rightarrow> world \<Rightarrow> (exn + string_view) \<times> world" where
  "apply_format null_format_t w = (Inr None, w)"
| "apply_format (real_format_t fn) w =
     (case fn [] of
        Inl e \<Rightarrow> (Inl e, called FormatCall w)
      | Inr buffer \<Rightarrow> (Inr (Some buffer), called FormatCall w))"

text \<open>The two \<^verbatim>\<open>catch\<close> clauses around \<^verbatim>\<open>handler->execute(record)\<close>.\<close>

fun diagnostic :: "exn \<Rightarrow> string" where
  "diagnostic (std_exception what) = ''logging core error occurred: '' @ what"
| "diagnostic other_exception = ''logging core error occurred: unknown''"

text \<open>
  The loop over \<^verbatim>\<open>inner->handlers\<close>, from position \<open>i\<close> of the vector: a handler that throws
  gets its diagnostic written to \<^verbatim>\<open>std::cout\<close>, and the loop goes on.
\<close>

fun dispatch :: "handler_t list \<Rightarrow> nat \<Rightarrow> record_t \<Rightarrow> world \<Rightarrow> world" where
  "dispatch [] i r w = w"
| "dispatch (h # hs) i r w =
     (case h r of
        Inr u \<Rightarrow> dispatch hs (Suc i) r (called (Execute i r) w)
      | Inl e \<Rightarrow> dispatch hs (Suc i) r ((called (Execute i r) w)\<lparr>cout := cout w @ [diagnostic e]\<rparr>))"

text \<open>
  The first two statements of \<^verbatim>\<open>consume\<close> take the snapshot: the shared pointer, and a copy
  of the filter read under the lock of the object it points to.
\<close>

definition consume_load :: "root_logger_t \<Rightarrow> world \<Rightarrow> nat \<times> filter_t" where
  "consume_load lg w = (let a = inner lg in (a, filter_fn (cells w a)))"

text \<open>
  The rest of \<^verbatim>\<open>consume\<close>, on a snapshot. The pack is the caller's, taken by reference, so its
  value after the call is part of the result, next to the outcome (an exception that leaves
  the call, or a normal return) and the world. \<open>collect_fn\<close> is \<^verbatim>\<open>scoped_t::collect\<close>.
\<close>

definition scoped_pack ::
  "(scoped_t \<Rightarrow> attribute_pack \<Rightarrow> attribute_pack) \<Rightarrow> root_logger_t \<Rightarrow> attribute_pack \<Rightarrow>
     attribute_pack" where
  "scoped_pack collect_fn lg pack =
     (case sync_context lg of None \<Rightarrow> pack | Some sc \<Rightarrow> collect_fn sc pack)"

definition consume_rest ::
  "(scoped_t \<Rightarrow> attribute_pack \<Rightarrow> attribute_pack) \<Rightarrow> nat \<times> filter_t \<Rightarrow> root_logger_t \<Rightarrow>
     int \<Rightarrow> string \<Rightarrow> attribute_pack \<Rightarrow> format_functor \<Rightarrow> world \<Rightarrow>
     (exn + unit) \<times> attribute_pack \<times> world" where
  "consume_rest collect_fn snapshot lg sev pattern pack fn w =
     (let pack = scoped_pack collect_fn lg pack;
          r = record_ctor w sev pattern pack
      in case snd snapshot r of
           Inl e \<Rightarrow> (Inl e, pack, called FilterCall w)
         | Inr False \<Rightarrow> (Inr (), pack, called FilterCall w)
         | Inr True \<Rightarrow>
             (case apply_format fn (called FilterCall w) of
                (Inl e, w) \<Rightarrow> (Inl e, pack, w)
              | (Inr view, w) \<Rightarrow>
                  (Inr (), pack,
                   dispatch (handlers (cells w (fst snapshot))) 0 (activate view r)
                     (called (Activate view) w))))"

definition consume ::
  "(scoped_t \<Rightarrow> attribute_pack \<Rightarrow> attribute_pack) \<Rightarrow> root_logger_t \<Rightarrow>
     int \<Rightarrow> string \<Rightarrow> attribute_pack \<Rightarrow> format_functor \<Rightarrow> world \<Rightarrow>
     (exn + unit) \<times> attribute_pack \<times> world" where
  "consume collect_fn lg sev pattern pack fn w =
     consume_rest collect_fn (consume_load lg w) lg sev pattern pack fn w"

text \<open>The three overloads of \<^verbatim>\<open>root_logger_t::log\<close>; the first owns its pack.\<close>

definition log4 ::
  "(scoped_t \<Rightarrow> attribute_pack \<Rightarrow> attribute_pack) \<Rightarrow> root_logger_t \<Rightarrow>
     int \<Rightarrow> string \<Rightarrow> attribute_pack \<Rightarrow> format_t \<Rightarrow> world \<Rightarrow>
     (exn + unit) \<times> attribute_pack \<times> world" where
  "log4 collect_fn lg sev pattern pack fn w =
     consume collect_fn lg sev pattern pack (real_format_t fn) w"

definition log3 ::
  "(scoped_t \<Rightarrow> attribute_pack \<Rightarrow> attribute_pack) \<Rightarrow> root_logger_t \<Rightarrow>
     int \<Rightarrow> string \<Rightarrow> attribute_pack \<Rightarrow> world \<Rightarrow> (exn + unit) \<times> attribute_pack \<times> world" where
  "log3 collect_fn lg sev pattern pack w =
     consume collect_fn lg sev pattern pack null_format_t w"

definition log2 ::
  "(scoped_t \<Rightarrow> attribute_pack \<Rightarrow> attribute_pack) \<Rightarrow> root_logger_t \<Rightarrow>
     int \<Rightarrow> string \<Rightarrow> world \<Rightarrow> (exn + unit) \<times> world" where
  "log2 collect_fn lg sev pattern w =
     (let pack = [];
          (outcome, pack, w) = log3 collect_fn lg sev pattern pack w
      in (outcome, w))"

text \<open>The lines the handler loop writes for a handler list, in order.\<close>

fun diagnostics :: "handler_t list \<Rightarrow> record_t \<Rightarrow> string list" where
  "diagnostics [] r = []"
| "diagnostics (h # hs) r =
     (case h r of Inr u \<Rightarrow> diagnostics hs r | Inl e \<Rightarrow> diagnostic e # diagnostics hs r)"

text \<open>The three components of what a log call returns.\<close>

definition outcome :: "(exn + unit) \<times> attribute_pack \<times> world \<Rightarrow> exn + unit" where
  "outcome x = fst x"

definition pack_after :: "(exn + unit) \<times> attribute_pack \<times> world \<Rightarrow> attribute_pack" where
  "pack_after x = fst (snd x)"

definition world_after :: "(exn + unit) \<times> attribute_pack \<times> world \<Rightarrow> world" where
  "world_after x = snd (snd x)"

text \<open>The \<^verbatim>\<open>execute\<close> calls among a list of calls: position and record, in order.\<close>

fun executed :: "call list \<Rightarrow> (nat \<times> record_t) list" where
  "executed [] = []"
| "executed (Execute i r # cs) = (i, r) # executed cs"
| "executed (c # cs) = executed cs"

text \<open>The calls a log call added to those made before it.\<close>

definition new_calls :: "world \<Rightarrow> world \<Rightarrow> call list" where
  "new_calls w w' = drop (length (calls w)) (calls w')"

subsection \<open>Concrete loggers\<close>

text \<open>
  An empty world, filters, handlers and format callbacks with fixed behaviour, used to
  run the definitions on concrete inputs.
\<close>

definition world0 :: world where
  "world0 = \<lparr>cells = (\<lambda>a. \<lparr>filter_fn = accept_all, handlers = []\<rparr>), used = 0,
     cout = [], cerr = [], calls = [],
     clock_now = \<lparr>tp_seconds = 1449859055, tp_usec = 0\<rparr>, getpid = 12345, pthread_self = 57005\<rparr>"

definition reject_all :: filter_t where
  "reject_all r = Inr False"

definition throwing_filter :: filter_t where
  "throwing_filter r = Inl (std_exception ''bad filter'')"

definition failing_handler :: handler_t where
  "failing_handler r = Inl (std_exception ''boom'')"

definition quiet_handler :: handler_t where
  "quiet_handler r = Inr ()"

definition throwing_format :: format_t where
  "throwing_format buffer = Inl other_exception"

definition hello_format :: format_t where
  "hello_format buffer = Inr (buffer @ ''hello'')"


definition plain_logger :: "root_logger_t \<times> world" where
  "plain_logger = root_logger [quiet_handler] world0"

section \<open>The timestamp placeholder and the datetime generator\<close>








text \<open>The format \<^verbatim>\<open>{:06d}\<close> on an unsigned integer: decimal, zero-padded to width six.\<close>

definition digit :: "nat \<Rightarrow> char" where
  "digit d = char_of (48 + d)"

fun decimal :: "nat \<Rightarrow> string" where
  "decimal n = (if n < 10 then [digit n] else decimal (n div 10) @ [digit (n mod 10)])"

declare decimal.simps [simp del]







subsection \<open>The pieces of a pattern\<close>







subsection \<open>The pattern interpreted directly\<close>






section \<open>The JSON formatter\<close>

text \<open>
  Modelled from the spec: \<^verbatim>\<open>json_t::format\<close> and the builder (the sources hold only the
  declarations of \<^verbatim>\<open>formatter/json.hpp\<close>). The formatter builds a JSON object: every intrinsic
  field and every attribute of the record is placed at the path its name is routed to (the
  default pointer otherwise), under its name or the alternative the renames table lists;
  intermediate objects are created as needed; with \<open>unique\<close> a later write replaces an earlier
  one at the same path, without it duplicates are appended. The tree is serialized compactly
  and a newline is appended when \<open>newline\<close> is set. A JSON pointer is given by its reference
  tokens, the root by the empty list. Where a path runs into a member that is not an object
  the spec says nothing; the write is left out here. Of string escaping only the quote and
  the backslash are modelled.
\<close>

datatype json = JNull | JBool bool | JInt int | JString string | JObject "(string \<times> json) list"

type_synonym pointer = "string list"

record properties_t =
  routing :: "(string \<times> pointer) list"
  default_route :: pointer
  renames :: "(string \<times> string) list"
  unique :: bool
  newline :: bool

definition json_default :: properties_t where
  "json_default = \<lparr>routing = [], default_route = [], renames = [], unique = False, newline = False\<rparr>"

text \<open>The builder's setters.\<close>

definition route_default :: "pointer \<Rightarrow> properties_t \<Rightarrow> properties_t" where
  "route_default ptr props = props\<lparr>default_route := ptr\<rparr>"

definition route :: "pointer \<Rightarrow> string list \<Rightarrow> properties_t \<Rightarrow> properties_t" where
  "route ptr names props = props\<lparr>routing := map (\<lambda>name. (name, ptr)) names @ routing props\<rparr>"

definition rename :: "string \<Rightarrow> string \<Rightarrow> properties_t \<Rightarrow> properties_t" where
  "rename from to props = props\<lparr>renames := (from, to) # renames props\<rparr>"


definition with_newline :: "properties_t \<Rightarrow> properties_t" where
  "with_newline props = props\<lparr>newline := True\<rparr>"

definition route_of :: "properties_t \<Rightarrow> string \<Rightarrow> pointer" where
  "route_of props name = (case map_of (routing props) name of None \<Rightarrow> default_route props | Some ptr \<Rightarrow> ptr)"

definition name_of :: "properties_t \<Rightarrow> string \<Rightarrow> string" where
  "name_of props name = (case map_of (renames props) name of None \<Rightarrow> name | Some alt \<Rightarrow> alt)"

text \<open>The JSON value of an attribute value.\<close>

fun json_of :: "attribute_value \<Rightarrow> json" where
  "json_of Null = JNull"
| "json_of (Bool b) = JBool b"
| "json_of (SInt i) = JInt i"
| "json_of (UInt n) = JInt (int n)"
| "json_of (Str s) = JString s"

text \<open>
  The thread id is emitted as an integer or as a hexadecimal string with the prefix
  \<^verbatim>\<open>0x\<close>; which of the two is the platform's choice.
\<close>

datatype thread_repr = thread_integer | thread_hex

definition hexdigit :: "nat \<Rightarrow> char" where
  "hexdigit d = (if d < 10 then char_of (48 + d) else char_of (87 + d))"

fun hex :: "nat \<Rightarrow> string" where
  "hex n = (if n < 16 then [hexdigit n] else hex (n div 16) @ [hexdigit (n mod 16)])"

declare hex.simps [simp del]

fun thread_json :: "thread_repr \<Rightarrow> nat \<Rightarrow> json" where
  "thread_json thread_integer t = JInt (int t)"
| "thread_json thread_hex t = JString (''0x'' @ hex t)"

text \<open>
  The fields of a record in the order they are written: the intrinsic ones, then the
  attributes layer by layer. The timestamp is the instant of the record counted in
  microseconds since the epoch.
\<close>

definition intrinsic :: "thread_repr \<Rightarrow> record_t \<Rightarrow> (string \<times> json) list" where
  "intrinsic repr r =
     [(''message'', JString (formatted r)),
      (''severity'', JInt (severity r)),
      (''timestamp'', JInt (int (microseconds_since_epoch (timestamp r)))),
      (''process'', JInt (int (pid r))),
      (''thread'', thread_json repr (tid r))]"

definition fields :: "thread_repr \<Rightarrow> record_t \<Rightarrow> (string \<times> json) list" where
  "fields repr r = intrinsic repr r @ map (\<lambda>(name, v). (name, json_of v)) (concat (attributes r))"

text \<open>
  Writing a member into an object (with \<open>u\<close> the first member of that name is replaced,
  otherwise the member is appended), replacing or adding the child of a name, and writing a
  value under a name at a path below a tree.
\<close>

fun write_member :: "bool \<Rightarrow> string \<Rightarrow> json \<Rightarrow> (string \<times> json) list \<Rightarrow> (string \<times> json) list" where
  "write_member u k v [] = [(k, v)]"
| "write_member u k v ((q, x) # ms) =
     (if u \<and> q = k then (k, v) # ms else (q, x) # write_member u k v ms)"

fun update_child :: "string \<Rightarrow> json \<Rightarrow> (string \<times> json) list \<Rightarrow> (string \<times> json) list" where
  "update_child p c [] = [(p, c)]"
| "update_child p c ((q, x) # ms) =
     (if q = p then (q, c) # ms else (q, x) # update_child p c ms)"

fun put :: "bool \<Rightarrow> pointer \<Rightarrow> string \<Rightarrow> json \<Rightarrow> json \<Rightarrow> json" where
  "put u [] k v t = (case t of JObject ms \<Rightarrow> JObject (write_member u k v ms) | _ \<Rightarrow> t)"
| "put u (p # ps) k v t =
     (case t of
        JObject ms \<Rightarrow>
          JObject (update_child p
            (put u ps k v (case map_of ms p of None \<Rightarrow> JObject [] | Some child \<Rightarrow> child)) ms)
      | _ \<Rightarrow> t)"

definition place :: "properties_t \<Rightarrow> json \<Rightarrow> string \<times> json \<Rightarrow> json" where
  "place props tree field =
     put (unique props) (route_of props (fst field)) (name_of props (fst field)) (snd field) tree"

definition json_tree :: "properties_t \<Rightarrow> thread_repr \<Rightarrow> record_t \<Rightarrow> json" where
  "json_tree props repr r = foldl (place props) (JObject []) (fields repr r)"

text \<open>Compact serialization.\<close>

definition escape :: "string \<Rightarrow> string" where
  "escape s = concat (map (\<lambda>c. if c = CHR 0x22 \<or> c = CHR 0x5C then [CHR 0x5C, c] else [c]) s)"

definition quoted :: "string \<Rightarrow> string" where
  "quoted s = CHR 0x22 # escape s @ [CHR 0x22]"

definition integer :: "int \<Rightarrow> string" where
  "integer i = (if i < 0 then CHR ''-'' # decimal (nat (- i)) else decimal (nat i))"

fun serialize :: "json \<Rightarrow> string"
  and serialize_members :: "(string \<times> json) list \<Rightarrow> string" where
  "serialize JNull = ''null''"
| "serialize (JBool b) = (if b then ''true'' else ''false'')"
| "serialize (JInt i) = integer i"
| "serialize (JString s) = quoted s"
| "serialize (JObject ms) = ''{'' @ serialize_members ms @ ''}''"
| "serialize_members [] = []"
| "serialize_members [(k, v)] = quoted k @ '':'' @ serialize v"
| "serialize_members ((k, v) # m # ms) =
     quoted k @ '':'' @ serialize v @ '','' @ serialize_members (m # ms)"

definition json_format :: "properties_t \<Rightarrow> thread_repr \<Rightarrow> record_t \<Rightarrow> string" where
  "json_format props repr r =
     serialize (json_tree props repr r) @ (if newline props then [CHR 0x0A] else [])"

subsection \<open>Reading a tree\<close>



text \<open>
  The place of a field is its path and the name it is emitted under. A place lies on the
  way of another when its path followed by its name is a prefix of the other's path: then a
  member and an intermediate object are asked for at the same spot.
\<close>

type_synonym place_t = "pointer \<times> string"

definition place_of :: "properties_t \<Rightarrow> string \<Rightarrow> place_t" where
  "place_of props name = (route_of props name, name_of props name)"

definition places :: "properties_t \<Rightarrow> thread_repr \<Rightarrow> record_t \<Rightarrow> place_t list" where
  "places props repr r = map (\<lambda>field. place_of props (fst field)) (fields repr r)"



text \<open>
  The record of the first concrete scenario: severity 3, two attributes, process 12345,
  thread \<^verbatim>\<open>0xdead\<close>, wall-clock time 1449859055 seconds; and the same record with an
  attribute that has the name of an intrinsic field.
\<close>

definition scenario_record :: record_t where
  "scenario_record =
     \<lparr>severity = 3, message = ''fatal error, please try again'', rendered = None,
      attributes = [[(''key'', SInt 42), (''ip'', Str ''[::]'')]],
      timestamp = \<lparr>tp_seconds = 1449859055, tp_usec = 0\<rparr>, pid = 12345, tid = 57005\<rparr>"


section \<open>Properties of the attribute-set logger\<close>

text \<open>
  C9. A verbose logger constructed with threshold \<open>T\<close>, whose filter was never replaced and
  which is enabled (whatever sequence of \<^verbatim>\<open>enabled(bool)\<close> calls led there), opens a valid
  record for a level exactly when the underlying integer of the level is greater than or
  equal to the underlying integer of \<open>T\<close>. In full: the record is valid exactly when the
  logger is enabled and the level reaches the threshold.
\<close>

theorem verbose_open_record_valid_iff:
  "valid (fst (verbose_open_record m underlying
                 (verbose_enabled e (verbose_logger underlying T)) lvl external))
     \<longleftrightarrow> e \<and> underlying lvl \<ge> underlying T"
  by (simp add: verbose_open_record_def verbose_enabled_def verbose_logger_def
      composite_logger_def set_enabled_def open_record_def default_filter_def Let_def)

theorem verbose_open_record_valid_iff_witness:
  "valid (fst (verbose_open_record plain_ipp level_value
                 (verbose_enabled True (verbose_logger level_value warning)) critical []))
   \<and> \<not> valid (fst (verbose_open_record plain_ipp level_value
                 (verbose_enabled True (verbose_logger level_value warning)) info []))
   \<and> level_value critical \<ge> level_value warning \<and> \<not> level_value info \<ge> level_value warning"
  using verbose_open_record_valid_iff [of plain_ipp level_value True warning critical "[]"]
        verbose_open_record_valid_iff [of plain_ipp level_value True warning info "[]"]
  by simp

text \<open>
  C10. A composite logger is constructed enabled. \<^verbatim>\<open>enabled(false)\<close> clears the flag and
  replacing the filter does not touch it; while the flag is clear, every \<^verbatim>\<open>open_record\<close>
  call returns the invalid record and goes through no step at all: the filter is not
  evaluated and no attribute is populated. \<^verbatim>\<open>enabled(true)\<close> sets the flag, and with the flag
  set the filter is evaluated again and decides the validity of the record.
\<close>

theorem open_record_disabled:
  "d_enabled (composite_logger f)
   \<and> \<not> d_enabled (set_enabled False d)
   \<and> d_enabled (set_filter g d) = d_enabled d
   \<and> (\<not> d_enabled d \<longrightarrow> open_record m additional d external args = (invalid, []))
   \<and> d_enabled (set_enabled True d)
   \<and> (d_enabled d \<longrightarrow>
        take 2 (snd (open_record m additional d external args)) = [WithScoped, Filter]
        \<and> (valid (fst (open_record m additional d external args))
             \<longleftrightarrow> d_filter d (with_scoped m external) args))"
  by (simp add: composite_logger_def set_enabled_def set_filter_def open_record_def Let_def)

theorem open_record_disabled_witness:
  "\<not> d_enabled (set_enabled False (composite_logger (default_filter level_value warning)))
   \<and> open_record plain_ipp (populate_additional level_value)
         (set_enabled False (composite_logger (default_filter level_value warning))) [] critical
       = (invalid, [])
   \<and> d_enabled (set_enabled True (set_enabled False (composite_logger (default_filter level_value warning))))
   \<and> valid (fst (open_record plain_ipp (populate_additional level_value)
         (set_enabled True (set_enabled False (composite_logger (default_filter level_value warning))))
         [] critical))"
  using open_record_disabled [of "default_filter level_value warning"
          "set_enabled False (composite_logger (default_filter level_value warning))"
          "default_filter level_value debug"
          plain_ipp "populate_additional level_value" "[]" critical]
        open_record_disabled [of "default_filter level_value warning"
          "set_enabled True (set_enabled False (composite_logger (default_filter level_value warning)))"
          "default_filter level_value debug"
          plain_ipp "populate_additional level_value" "[]" critical]
  by (simp add: composite_logger_def set_enabled_def default_filter_def)

section \<open>Properties of the root logger\<close>

lemma dispatch_calls:
  "calls (dispatch hs i r w) = calls w @ map (\<lambda>j. Execute j r) [i..<i + length hs]"
proof (induction hs arbitrary: i w)
  case Nil
  then show ?case by simp
next
  case (Cons h hs)
  have "[i..<i + length (h # hs)] = i # [Suc i..<Suc i + length hs]"
    by (simp add: upt_rec)
  with Cons show ?case
    by (simp add: called_def split: sum.splits)
qed

lemma dispatch_cout: "cout (dispatch hs i r w) = cout w @ diagnostics hs r"
  by (induction hs arbitrary: i w) (simp_all add: called_def split: sum.splits)

lemma dispatch_cerr: "cerr (dispatch hs i r w) = cerr w"
  by (induction hs arbitrary: i w) (simp_all add: called_def split: sum.splits)

lemma dispatch_cells: "cells (dispatch hs i r w) = cells w"
  by (induction hs arbitrary: i w) (simp_all add: called_def split: sum.splits)

lemmas result_defs = outcome_def pack_after_def world_after_def new_calls_def

text \<open>
  C3. When the installed filter returns false for the record the call has constructed, the
  log call returns normally and the only call it has made is the one to the filter: the user
  format callback is not invoked, \<^verbatim>\<open>record.activate\<close> is not called, \<^verbatim>\<open>execute\<close> is invoked
  on no handler, and nothing is written to the standard streams.
\<close>

theorem consume_rejected:
  assumes "filter_fn (cells w (inner lg))
             (record_ctor w sev pattern (scoped_pack collect_fn lg pack)) = Inr False"
  shows "outcome (consume collect_fn lg sev pattern pack fn w) = Inr ()
       \<and> new_calls w (world_after (consume collect_fn lg sev pattern pack fn w)) = [FilterCall]
       \<and> FormatCall \<notin> set (new_calls w (world_after (consume collect_fn lg sev pattern pack fn w)))
       \<and> (\<forall>v. Activate v \<notin> set (new_calls w (world_after (consume collect_fn lg sev pattern pack fn w))))
       \<and> (\<forall>i r. Execute i r \<notin> set (new_calls w (world_after (consume collect_fn lg sev pattern pack fn w))))
       \<and> cout (world_after (consume collect_fn lg sev pattern pack fn w)) = cout w
       \<and> cerr (world_after (consume collect_fn lg sev pattern pack fn w)) = cerr w"
  using assms
  by (simp add: consume_def consume_rest_def consume_load_def Let_def result_defs called_def)

theorem consume_rejected_witness:
  "outcome (consume collect (fst (root_logger_with reject_all [quiet_handler] world0)) 3 ''msg'' []
      (real_format_t hello_format) (snd (root_logger_with reject_all [quiet_handler] world0))) = Inr ()
   \<and> new_calls (snd (root_logger_with reject_all [quiet_handler] world0))
        (world_after (consume collect (fst (root_logger_with reject_all [quiet_handler] world0)) 3 ''msg'' []
      (real_format_t hello_format) (snd (root_logger_with reject_all [quiet_handler] world0)))) = [FilterCall]"
  using consume_rejected [of "snd (root_logger_with reject_all [quiet_handler] world0)"
      "fst (root_logger_with reject_all [quiet_handler] world0)" 3 "''msg''" collect "[]"
      "real_format_t hello_format"]
  by (simp add: root_logger_with_def make_shared_def world0_def reject_all_def)


text \<open>
  C4. An exception thrown by the filter leaves the log call as it is, after the call to the
  filter and nothing else. An exception thrown by the user format callback of the
  four-argument overload, on a record the filter accepted, leaves the log call as it is,
  after the calls to the filter and to the callback. In both cases no handler is invoked
  and no diagnostic is written.
\<close>

theorem consume_propagates:
  "(filter_fn (cells w (inner lg))
      (record_ctor w sev pattern (scoped_pack collect_fn lg pack)) = Inl e
    \<longrightarrow> outcome (consume collect_fn lg sev pattern pack fn w) = Inl e
      \<and> new_calls w (world_after (consume collect_fn lg sev pattern pack fn w)) = [FilterCall]
      \<and> cout (world_after (consume collect_fn lg sev pattern pack fn w)) = cout w
      \<and> cerr (world_after (consume collect_fn lg sev pattern pack fn w)) = cerr w)
   \<and> (filter_fn (cells w (inner lg))
      (record_ctor w sev pattern (scoped_pack collect_fn lg pack)) = Inr True
      \<and> f [] = Inl e
    \<longrightarrow> outcome (log4 collect_fn lg sev pattern pack f w) = Inl e
      \<and> new_calls w (world_after (log4 collect_fn lg sev pattern pack f w))
          = [FilterCall, FormatCall]
      \<and> cout (world_after (log4 collect_fn lg sev pattern pack f w)) = cout w
      \<and> cerr (world_after (log4 collect_fn lg sev pattern pack f w)) = cerr w)"
  by (simp add: log4_def consume_def consume_rest_def consume_load_def Let_def result_defs called_def)

theorem consume_propagates_witness:
  "outcome (consume collect (fst (root_logger_with throwing_filter [quiet_handler] world0)) 3 ''msg'' []
      null_format_t (snd (root_logger_with throwing_filter [quiet_handler] world0)))
     = Inl (std_exception ''bad filter'')
   \<and> outcome (log4 collect (fst (root_logger [quiet_handler] world0)) 3 ''msg'' []
      throwing_format (snd (root_logger [quiet_handler] world0)))
     = Inl other_exception
   \<and> new_calls (snd (root_logger [quiet_handler] world0))
        (world_after (log4 collect (fst (root_logger [quiet_handler] world0)) 3 ''msg'' []
          throwing_format (snd (root_logger [quiet_handler] world0))))
     = [FilterCall, FormatCall]"
  using consume_propagates [of "snd (root_logger_with throwing_filter [quiet_handler] world0)"
      "fst (root_logger_with throwing_filter [quiet_handler] world0)" 3 "''msg''" collect "[]"
      "std_exception ''bad filter''" null_format_t throwing_format]
    consume_propagates [of "snd (root_logger [quiet_handler] world0)"
      "fst (root_logger [quiet_handler] world0)" 3 "''msg''" collect "[]"
      other_exception null_format_t throwing_format]
  by (simp add: root_logger_with_def root_logger_def make_shared_def world0_def
      throwing_filter_def throwing_format_def accept_all_def)


lemma apply_format_fst: "fst (apply_format fn w) = fst (apply_format fn w')"
  by (cases fn) (simp_all split: sum.splits)

lemma apply_format_cout: "cout (snd (apply_format fn w)) = cout w"
  by (cases fn) (simp_all add: called_def split: sum.splits)

lemma apply_format_cerr: "cerr (snd (apply_format fn w)) = cerr w"
  by (cases fn) (simp_all add: called_def split: sum.splits)

lemma apply_format_cells: "cells (snd (apply_format fn w)) = cells w"
  by (cases fn) (simp_all add: called_def split: sum.splits)

lemma executed_append: "executed (cs @ ds) = executed cs @ executed ds"
  by (induction cs rule: executed.induct) simp_all

lemma executed_map_Execute: "executed (map (\<lambda>j. Execute j r) js) = map (\<lambda>j. (j, r)) js"
  by (induction js) simp_all

lemma apply_format_calls:
  "\<exists>cs. calls (snd (apply_format fn w)) = calls w @ cs \<and> executed cs = []"
  by (cases fn) (simp_all add: called_def split: sum.splits)


lemma consume_accepted:
  assumes flt: "filter_fn (cells w (inner lg))
                  (record_ctor w sev pattern (scoped_pack collect_fn lg pack)) = Inr True"
    and fmt: "fst (apply_format fn w) = Inr view"
  shows "\<exists>cs. executed cs = [] \<and>
     consume collect_fn lg sev pattern pack fn w =
       (Inr (), scoped_pack collect_fn lg pack,
        dispatch (handlers (cells w (inner lg))) 0
          (activate view (record_ctor w sev pattern (scoped_pack collect_fn lg pack)))
          (snd (apply_format fn (called FilterCall w))\<lparr>calls := calls w @ cs @ [Activate view]\<rparr>))"
proof -
  obtain w1 where af: "apply_format fn (called FilterCall w) = (Inr view, w1)"
    using fmt apply_format_fst [of fn "called FilterCall w" w]
    by (cases "apply_format fn (called FilterCall w)") simp
  obtain cs where cs: "calls w1 = calls (called FilterCall w) @ cs" "executed cs = []"
    using apply_format_calls [of fn "called FilterCall w"] af by auto
  have cells1: "cells w1 = cells w"
    using apply_format_cells [of fn "called FilterCall w"] af by (simp add: called_def)
  have "called (Activate view) w1 = w1\<lparr>calls := calls w @ (FilterCall # cs) @ [Activate view]\<rparr>"
    using cs by (simp add: called_def)
  moreover have "executed (FilterCall # cs) = []"
    using cs by simp
  ultimately show ?thesis
    using flt af cells1
    by (intro exI [of _ "FilterCall # cs"])
       (simp add: consume_def consume_rest_def consume_load_def Let_def)
qed

text \<open>
  C2, as the code has it. When the filter accepts the record and the format functor returns,
  the log call returns normally whatever the handlers do; \<^verbatim>\<open>execute\<close> is invoked on every
  handler of the vector, in order and once each, with the activated record; for every
  handler that throws, one diagnostic line is written to the standard output stream
  \<^verbatim>\<open>std::cout\<close>, and nothing is written to the standard error stream. An exception that
  leaves a log call was thrown by the filter or by the format functor, never by a handler.
\<close>

theorem consume_contains_handler_failures:
  "(filter_fn (cells w (inner lg))
      (record_ctor w sev pattern (scoped_pack collect_fn lg pack)) = Inr True
    \<and> fst (apply_format fn w) = Inr view
    \<longrightarrow> outcome (consume collect_fn lg sev pattern pack fn w) = Inr ()
      \<and> executed (new_calls w (world_after (consume collect_fn lg sev pattern pack fn w)))
          = map (\<lambda>j. (j, activate view (record_ctor w sev pattern (scoped_pack collect_fn lg pack))))
              [0..<length (handlers (cells w (inner lg)))]
      \<and> cout (world_after (consume collect_fn lg sev pattern pack fn w))
          = cout w @ diagnostics (handlers (cells w (inner lg)))
              (activate view (record_ctor w sev pattern (scoped_pack collect_fn lg pack)))
      \<and> cerr (world_after (consume collect_fn lg sev pattern pack fn w)) = cerr w)
   \<and> (outcome (consume collect_fn lg sev pattern pack fn w) = Inl e
    \<longrightarrow> filter_fn (cells w (inner lg))
          (record_ctor w sev pattern (scoped_pack collect_fn lg pack)) = Inl e
      \<or> fst (apply_format fn w) = Inl e)"
proof (intro conjI impI)
  assume a: "filter_fn (cells w (inner lg))
      (record_ctor w sev pattern (scoped_pack collect_fn lg pack)) = Inr True
    \<and> fst (apply_format fn w) = Inr view"
  then obtain cs where cs: "executed cs = []"
    and eq: "consume collect_fn lg sev pattern pack fn w =
       (Inr (), scoped_pack collect_fn lg pack,
        dispatch (handlers (cells w (inner lg))) 0
          (activate view (record_ctor w sev pattern (scoped_pack collect_fn lg pack)))
          (snd (apply_format fn (called FilterCall w))\<lparr>calls := calls w @ cs @ [Activate view]\<rparr>))"
    using consume_accepted [of w lg sev pattern collect_fn pack fn view] by blast
  show "outcome (consume collect_fn lg sev pattern pack fn w) = Inr ()"
    by (simp add: eq outcome_def)
  show "executed (new_calls w (world_after (consume collect_fn lg sev pattern pack fn w)))
          = map (\<lambda>j. (j, activate view (record_ctor w sev pattern (scoped_pack collect_fn lg pack))))
              [0..<length (handlers (cells w (inner lg)))]"
    using cs
    by (simp add: eq world_after_def new_calls_def dispatch_calls executed_append
        executed_map_Execute)
  show "cout (world_after (consume collect_fn lg sev pattern pack fn w))
          = cout w @ diagnostics (handlers (cells w (inner lg)))
              (activate view (record_ctor w sev pattern (scoped_pack collect_fn lg pack)))"
    by (simp add: eq world_after_def dispatch_cout apply_format_cout called_def)
  show "cerr (world_after (consume collect_fn lg sev pattern pack fn w)) = cerr w"
    by (simp add: eq world_after_def dispatch_cerr apply_format_cerr called_def)
next
  assume e: "outcome (consume collect_fn lg sev pattern pack fn w) = Inl e"
  show "filter_fn (cells w (inner lg))
          (record_ctor w sev pattern (scoped_pack collect_fn lg pack)) = Inl e
      \<or> fst (apply_format fn w) = Inl e"
  proof (cases "filter_fn (cells w (inner lg))
          (record_ctor w sev pattern (scoped_pack collect_fn lg pack))")
    case (Inl e')
    with e show ?thesis
      by (simp add: consume_def consume_rest_def consume_load_def Let_def outcome_def)
  next
    case (Inr b)
    show ?thesis
    proof (cases b)
      case False
      with Inr e show ?thesis
        by (simp add: consume_def consume_rest_def consume_load_def Let_def outcome_def)
    next
      case True
      obtain x w1 where af: "apply_format fn (called FilterCall w) = (x, w1)"
        by (cases "apply_format fn (called FilterCall w)")
      have "x = Inl e"
        using e Inr True af
        by (cases x) (simp_all add: consume_def consume_rest_def consume_load_def Let_def outcome_def)
      then show ?thesis
        using af apply_format_fst [of fn "called FilterCall w" w] by simp
    qed
  qed
qed

theorem consume_contains_handler_failures_witness:
  "outcome (consume collect (fst (root_logger [failing_handler, quiet_handler] world0)) 3 ''msg'' []
      null_format_t (snd (root_logger [failing_handler, quiet_handler] world0))) = Inr ()
   \<and> map fst (executed (new_calls (snd (root_logger [failing_handler, quiet_handler] world0))
        (world_after (consume collect (fst (root_logger [failing_handler, quiet_handler] world0)) 3 ''msg'' []
      null_format_t (snd (root_logger [failing_handler, quiet_handler] world0)))))) = [0, 1]"
  using consume_contains_handler_failures [of "snd (root_logger [failing_handler, quiet_handler] world0)"
      "fst (root_logger [failing_handler, quiet_handler] world0)" 3 "''msg''" collect "[]"
      null_format_t None other_exception]
  by (simp add: root_logger_def make_shared_def world0_def accept_all_def upt_rec)

text \<open>
  C2 as stated fails: with a first handler that throws, the diagnostic is on the standard
  output stream and the standard error stream stays empty.
\<close>

theorem consume_writes_to_cout:
  "cerr (world_after (consume collect (fst (root_logger [failing_handler, quiet_handler] world0)) 3 ''msg'' []
      null_format_t (snd (root_logger [failing_handler, quiet_handler] world0)))) = []
   \<and> cout (world_after (consume collect (fst (root_logger [failing_handler, quiet_handler] world0)) 3 ''msg'' []
      null_format_t (snd (root_logger [failing_handler, quiet_handler] world0))))
       = [''logging core error occurred: boom'']"
  by (simp add: root_logger_def make_shared_def world0_def accept_all_def consume_def
      consume_rest_def consume_load_def Let_def world_after_def called_def scoped_pack_def
      failing_handler_def quiet_handler_def)



lemma consume_not_accepted:
  assumes "filter_fn (cells w (inner lg))
             (record_ctor w sev pattern (scoped_pack collect_fn lg pack)) \<noteq> Inr True
           \<or> fst (apply_format fn w) = Inl e"
  shows "executed (new_calls w (world_after (consume collect_fn lg sev pattern pack fn w))) = []"
proof (cases "filter_fn (cells w (inner lg))
             (record_ctor w sev pattern (scoped_pack collect_fn lg pack)) = Inr True")
  case False
  then show ?thesis
    by (cases "filter_fn (cells w (inner lg))
             (record_ctor w sev pattern (scoped_pack collect_fn lg pack))")
       (simp_all add: consume_def consume_rest_def consume_load_def Let_def result_defs called_def
          split: bool.splits)
next
  case True
  with assms have fmt: "fst (apply_format fn w) = Inl e" by simp
  obtain w1 where af: "apply_format fn (called FilterCall w) = (Inl e, w1)"
    using fmt apply_format_fst [of fn "called FilterCall w" w]
    by (cases "apply_format fn (called FilterCall w)") simp
  obtain cs where cs: "calls w1 = calls (called FilterCall w) @ cs" "executed cs = []"
    using apply_format_calls [of fn "called FilterCall w"] af by auto
  show ?thesis
    using True af cs
    by (simp add: consume_def consume_rest_def consume_load_def Let_def result_defs called_def)
qed

lemma consume_executed:
  assumes "(i, r) \<in> set (executed (new_calls w (world_after (consume collect_fn lg sev pattern pack fn w))))"
  shows "\<exists>view. fst (apply_format fn w) = Inr view
           \<and> r = activate view (record_ctor w sev pattern (scoped_pack collect_fn lg pack))"
proof (cases "fst (apply_format fn w)")
  case (Inl e)
  then show ?thesis
    using assms consume_not_accepted [of w lg sev pattern collect_fn pack fn e] by simp
next
  case (Inr view)
  show ?thesis
  proof (cases "filter_fn (cells w (inner lg))
             (record_ctor w sev pattern (scoped_pack collect_fn lg pack)) = Inr True")
    case False
    then show ?thesis
      using assms consume_not_accepted [of w lg sev pattern collect_fn pack fn other_exception] by simp
  next
    case True
    obtain cs where cs: "executed cs = []"
      and eq: "consume collect_fn lg sev pattern pack fn w =
       (Inr (), scoped_pack collect_fn lg pack,
        dispatch (handlers (cells w (inner lg))) 0
          (activate view (record_ctor w sev pattern (scoped_pack collect_fn lg pack)))
          (snd (apply_format fn (called FilterCall w))\<lparr>calls := calls w @ cs @ [Activate view]\<rparr>))"
      using consume_accepted [OF True Inr] by blast
    have "executed (new_calls w (world_after (consume collect_fn lg sev pattern pack fn w)))
        = map (\<lambda>j. (j, activate view (record_ctor w sev pattern (scoped_pack collect_fn lg pack))))
              [0..<length (handlers (cells w (inner lg)))]"
      using cs
      by (simp add: eq world_after_def new_calls_def dispatch_calls executed_append
          executed_map_Execute)
    with assms Inr show ?thesis by auto
  qed
qed






text \<open>
  C5. The two-argument overload returns what the three-argument overload returns on an empty
  pack, and every record a handler gets from it has the severity and the message of the
  call, and the message itself as its formatted message.
\<close>

theorem log2_verbatim:
  "log2 collect_fn lg sev m w
     = (outcome (log3 collect_fn lg sev m [] w), world_after (log3 collect_fn lg sev m [] w))
   \<and> (\<forall>i r. (i, r) \<in> set (executed (new_calls w (snd (log2 collect_fn lg sev m w))))
        \<longrightarrow> formatted r = m \<and> message r = m \<and> severity r = sev)"
proof (intro conjI allI impI)
  show eq: "log2 collect_fn lg sev m w
     = (outcome (log3 collect_fn lg sev m [] w), world_after (log3 collect_fn lg sev m [] w))"
    by (simp add: log2_def outcome_def world_after_def split: prod.splits)
  fix i r
  assume "(i, r) \<in> set (executed (new_calls w (snd (log2 collect_fn lg sev m w))))"
  then have "(i, r) \<in> set (executed (new_calls w
      (world_after (consume collect_fn lg sev m [] null_format_t w))))"
    by (simp add: eq log3_def)
  from consume_executed [OF this]
  have "r = record_ctor w sev m (scoped_pack collect_fn lg [])"
    by (simp add: activate_def)
  then show "formatted r = m" "message r = m" "severity r = sev"
    by (simp_all add: record_ctor_def formatted_def)
qed

theorem log2_verbatim_witness:
  "map (formatted \<circ> snd) (executed (new_calls (snd (root_logger [quiet_handler] world0))
      (snd (log2 collect (fst (root_logger [quiet_handler] world0)) 3 ''fatal error''
         (snd (root_logger [quiet_handler] world0)))))) = [''fatal error'']"
  using log2_verbatim [of collect "fst (root_logger [quiet_handler] world0)" 3 "''fatal error''"
      "snd (root_logger [quiet_handler] world0)"]
  by (simp add: root_logger_def make_shared_def world0_def accept_all_def quiet_handler_def
      log3_def consume_def consume_rest_def consume_load_def scoped_pack_def Let_def
      result_defs called_def activate_def record_ctor_def formatted_def)

lemma called_cells: "called c (w\<lparr>cells := m\<rparr>) = (called c w)\<lparr>cells := m\<rparr>"
  by (simp add: called_def)

lemma dispatch_cells_update:
  "dispatch hs i r (w\<lparr>cells := m\<rparr>) = (dispatch hs i r w)\<lparr>cells := m\<rparr>"
proof (induction hs arbitrary: i w)
  case Nil
  then show ?case by simp
next
  case (Cons h hs)
  show ?case
  proof (cases "h r")
    case (Inl e)
    have "(called (Execute i r) (w\<lparr>cells := m\<rparr>))\<lparr>cout := cout (w\<lparr>cells := m\<rparr>) @ [diagnostic e]\<rparr>
        = ((called (Execute i r) w)\<lparr>cout := cout w @ [diagnostic e]\<rparr>)\<lparr>cells := m\<rparr>"
      by (simp add: called_def)
    with Inl Cons.IH [of "Suc i" "(called (Execute i r) w)\<lparr>cout := cout w @ [diagnostic e]\<rparr>"]
    show ?thesis by simp
  next
    case (Inr u)
    with Cons.IH [of "Suc i" "called (Execute i r) w"] show ?thesis
      by (simp add: called_cells)
  qed
qed

lemma apply_format_cells_update:
  "apply_format fn (w\<lparr>cells := m\<rparr>)
     = (fst (apply_format fn w), (snd (apply_format fn w))\<lparr>cells := m\<rparr>)"
  by (cases fn) (simp_all add: called_def split: sum.splits)

lemma record_ctor_cells: "record_ctor (w\<lparr>cells := m\<rparr>) = record_ctor w"
  by (simp add: record_ctor_def fun_eq_iff)

lemma consume_rest_cells_update:
  assumes "handlers (m (fst snapshot)) = handlers (cells w (fst snapshot))"
  shows "consume_rest collect_fn snapshot lg sev pattern pack fn (w\<lparr>cells := m\<rparr>)
     = (outcome (consume_rest collect_fn snapshot lg sev pattern pack fn w),
        pack_after (consume_rest collect_fn snapshot lg sev pattern pack fn w),
        (world_after (consume_rest collect_fn snapshot lg sev pattern pack fn w))\<lparr>cells := m\<rparr>)"
proof -
  obtain x w1 where af: "apply_format fn (called FilterCall w) = (x, w1)"
    by (cases "apply_format fn (called FilterCall w)")
  have cells1: "cells w1 = cells w"
    using apply_format_cells [of fn "called FilterCall w"] af by (simp add: called_def)
  show ?thesis
    using assms af cells1
    by (simp add: consume_rest_def Let_def result_defs record_ctor_cells called_cells
        apply_format_cells_update dispatch_cells_update
        split: sum.splits bool.splits)
qed

text \<open>
  C1, as the code has it. Replacing the filter allocates nothing and publishes no new
  snapshot: the logger keeps its pointer, the filter member of the object it points to is
  overwritten in place, the handlers of that object and every other object stay as they
  were, and a snapshot taken afterwards reads the new filter. A log call that took its
  snapshot before the replacement and runs its remaining steps after it has the outcome, the
  pack, the calls and the output of a log call that ran without the replacement: it uses the
  filter it copied and the handlers of the object it points to.
\<close>

theorem root_logger_filter_in_place:
  "inner (fst (root_logger_filter f lg w)) = inner lg
   \<and> used (snd (root_logger_filter f lg w)) = used w
   \<and> cells (snd (root_logger_filter f lg w)) (inner lg) = (cells w (inner lg))\<lparr>filter_fn := f\<rparr>
   \<and> (\<forall>a. a \<noteq> inner lg \<longrightarrow> cells (snd (root_logger_filter f lg w)) a = cells w a)
   \<and> snd (consume_load (fst (root_logger_filter f lg w)) (snd (root_logger_filter f lg w))) = f
   \<and> outcome (consume_rest collect_fn (consume_load lg w) lg sev pattern pack fn
                 (snd (root_logger_filter f lg w)))
       = outcome (consume collect_fn lg sev pattern pack fn w)
   \<and> pack_after (consume_rest collect_fn (consume_load lg w) lg sev pattern pack fn
                 (snd (root_logger_filter f lg w)))
       = pack_after (consume collect_fn lg sev pattern pack fn w)
   \<and> calls (world_after (consume_rest collect_fn (consume_load lg w) lg sev pattern pack fn
                 (snd (root_logger_filter f lg w))))
       = calls (world_after (consume collect_fn lg sev pattern pack fn w))
   \<and> cout (world_after (consume_rest collect_fn (consume_load lg w) lg sev pattern pack fn
                 (snd (root_logger_filter f lg w))))
       = cout (world_after (consume collect_fn lg sev pattern pack fn w))
   \<and> cerr (world_after (consume_rest collect_fn (consume_load lg w) lg sev pattern pack fn
                 (snd (root_logger_filter f lg w))))
       = cerr (world_after (consume collect_fn lg sev pattern pack fn w))"
proof -
  define m where "m = (cells w)(inner lg := (cells w (inner lg))\<lparr>filter_fn := f\<rparr>)"
  have w': "snd (root_logger_filter f lg w) = w\<lparr>cells := m\<rparr>"
    and lg': "fst (root_logger_filter f lg w) = lg"
    by (simp_all add: root_logger_filter_def Let_def m_def)
  have h: "handlers (m (fst (consume_load lg w))) = handlers (cells w (fst (consume_load lg w)))"
    by (simp add: m_def consume_load_def)
  note rest = consume_rest_cells_update [of m "consume_load lg w" w collect_fn lg sev pattern pack fn, OF h]
  show ?thesis
    unfolding w' lg' rest
    by (simp add: m_def consume_load_def consume_def result_defs)
qed

text \<open>
  C1 as stated fails: the object a log call has taken its snapshot of, at address 0, accepts
  a record before the filter is replaced and rejects it afterwards, while the logger's
  pointer and the number of allocated objects are what they were.
\<close>

theorem root_logger_filter_mutates_snapshot:
  "fst (consume_load (fst plain_logger) (snd plain_logger)) = 0
   \<and> filter_fn (cells (snd plain_logger) 0) (record_ctor world0 3 ''msg'' []) = Inr True
   \<and> filter_fn (cells (snd (root_logger_filter reject_all (fst plain_logger) (snd plain_logger))) 0)
        (record_ctor world0 3 ''msg'' []) = Inr False
   \<and> inner (fst (root_logger_filter reject_all (fst plain_logger) (snd plain_logger))) = inner (fst plain_logger)
   \<and> used (snd (root_logger_filter reject_all (fst plain_logger) (snd plain_logger))) = used (snd plain_logger)"
  by (simp add: plain_logger_def root_logger_def make_shared_def world0_def root_logger_filter_def
      consume_load_def Let_def accept_all_def reject_all_def)


theorem root_logger_filter_in_place_witness:
  "(1::nat) \<noteq> inner (fst plain_logger)
   \<and> cells (snd (root_logger_filter reject_all (fst plain_logger) (snd plain_logger))) 1
       = cells (snd plain_logger) 1
   \<and> outcome (consume_rest collect (consume_load (fst plain_logger) (snd plain_logger))
         (fst plain_logger) 3 ''msg'' [] null_format_t
         (snd (root_logger_filter reject_all (fst plain_logger) (snd plain_logger)))) = Inr ()
   \<and> map fst (executed (calls (world_after (consume_rest collect
         (consume_load (fst plain_logger) (snd plain_logger))
         (fst plain_logger) 3 ''msg'' [] null_format_t
         (snd (root_logger_filter reject_all (fst plain_logger) (snd plain_logger))))))) = [0]"
  using root_logger_filter_in_place [of reject_all "fst plain_logger" "snd plain_logger"
      collect 3 "''msg''" "[]" null_format_t]
  by (simp add: plain_logger_def root_logger_def make_shared_def world0_def accept_all_def
      quiet_handler_def consume_def consume_rest_def consume_load_def scoped_pack_def Let_def
      result_defs called_def activate_def record_ctor_def root_logger_filter_def)

section \<open>Properties of the datetime generator\<close>

















lemma decimal_small: "n < 10 \<Longrightarrow> decimal n = [digit n]"
  by (subst decimal.simps) simp

lemma decimal_large: "10 \<le> n \<Longrightarrow> decimal n = decimal (n div 10) @ [digit (n mod 10)]"
  by (subst decimal.simps) simp





lemma digit_chars:
  "digit 0 = CHR ''0''" "digit 1 = CHR ''1''" "digit 2 = CHR ''2''" "digit 3 = CHR ''3''"
  "digit 4 = CHR ''4''" "digit 5 = CHR ''5''" "digit 6 = CHR ''6''" "digit 7 = CHR ''7''"
  "digit 8 = CHR ''8''" "digit 9 = CHR ''9''" "digit (Suc 0) = CHR ''1''"
proof -
  have c: "char_of (of_char c :: nat) = c" for c by (rule char_of_char)
  show "digit 0 = CHR ''0''" using c [of "CHR ''0''"] by (simp add: digit_def)
  show "digit 1 = CHR ''1''" using c [of "CHR ''1''"] by (simp add: digit_def)
  show "digit 2 = CHR ''2''" using c [of "CHR ''2''"] by (simp add: digit_def)
  show "digit 3 = CHR ''3''" using c [of "CHR ''3''"] by (simp add: digit_def)
  show "digit 4 = CHR ''4''" using c [of "CHR ''4''"] by (simp add: digit_def)
  show "digit 5 = CHR ''5''" using c [of "CHR ''5''"] by (simp add: digit_def)
  show "digit 6 = CHR ''6''" using c [of "CHR ''6''"] by (simp add: digit_def)
  show "digit 7 = CHR ''7''" using c [of "CHR ''7''"] by (simp add: digit_def)
  show "digit 8 = CHR ''8''" using c [of "CHR ''8''"] by (simp add: digit_def)
  show "digit 9 = CHR ''9''" using c [of "CHR ''9''"] by (simp add: digit_def)
  show "digit (Suc 0) = CHR ''1''" using c [of "CHR ''1''"] by (simp add: digit_def)
qed





section \<open>Properties of the JSON formatter\<close>



















lemma places_split:
  "take 5 (places props repr r) =
     [place_of props ''message'', place_of props ''severity'', place_of props ''timestamp'',
      place_of props ''process'', place_of props ''thread'']"
  "drop 5 (places props repr r) =
     map (\<lambda>field. place_of props (fst field))
       (map (\<lambda>(name, v). (name, json_of v)) (concat (attributes r)))"
  "set (places props repr r) =
     {place_of props ''message'', place_of props ''severity'', place_of props ''timestamp'',
      place_of props ''process'', place_of props ''thread''}
     \<union> set (drop 5 (places props repr r))"
  by (auto simp: places_def fields_def intrinsic_def)





lemma write_member_append: "write_member False k v ms = ms @ [(k, v)]"
  by (induction ms) auto

lemma foldl_place_default: "foldl (place json_default) (JObject ms) fs = JObject (ms @ fs)"
  by (induction fs arbitrary: ms)
     (simp_all add: place_def json_default_def route_of_def name_of_def write_member_append)

lemma json_tree_default: "json_tree json_default repr r = JObject (fields repr r)"
  by (simp add: json_tree_def foldl_place_default)

lemma hex_small: "n < 16 \<Longrightarrow> hex n = [hexdigit n]"
  by (subst hex.simps) simp

lemma hex_large: "16 \<le> n \<Longrightarrow> hex n = hex (n div 16) @ [hexdigit (n mod 16)]"
  by (subst hex.simps) simp

lemma hexdigit_chars:
  "hexdigit 10 = CHR ''a''" "hexdigit 13 = CHR ''d''" "hexdigit 14 = CHR ''e''"
proof -
  have c: "char_of (of_char c :: nat) = c" for c by (rule char_of_char)
  show "hexdigit 10 = CHR ''a''" using c [of "CHR ''a''"] by (simp add: hexdigit_def)
  show "hexdigit 13 = CHR ''d''" using c [of "CHR ''d''"] by (simp add: hexdigit_def)
  show "hexdigit 14 = CHR ''e''" using c [of "CHR ''e''"] by (simp add: hexdigit_def)
qed

lemma hex_dead: "hex 57005 = ''dead''"
  by (simp add: hex_small hex_large hexdigit_chars)

lemma decimal_scenario:
  "decimal 1449859055000000 = ''1449859055000000''" "decimal 12345 = ''12345''"
  "decimal 3 = ''3''" "decimal 42 = ''42''"
  by (simp_all add: decimal_small decimal_large digit_chars)

lemma scenario_fields:
  "fields thread_hex scenario_record =
     [(''message'', JString ''fatal error, please try again''), (''severity'', JInt 3),
      (''timestamp'', JInt 1449859055000000), (''process'', JInt 12345),
      (''thread'', JString ''0xdead''), (''key'', JInt 42), (''ip'', JString ''[::]'')]"
  by (simp add: fields_def intrinsic_def scenario_record_def formatted_def hex_dead
      microseconds_since_epoch_def)


text \<open>
  The two concrete scenarios of the formatter: the whole output for the scenario's record,
  with the default configuration and with the message and the severity routed to
  \<^verbatim>\<open>/fields\<close>.
\<close>

lemma scenario_output:
  \<open>json_format json_default thread_hex scenario_record =
     ''{"message":"fatal error, please try again","severity":3,"timestamp":1449859055000000,"process":12345,"thread":"0xdead","key":42,"ip":"[::]"}''\<close>
  unfolding json_format_def json_tree_default scenario_fields
  by (simp add: json_default_def quoted_def escape_def integer_def decimal_scenario)

lemma scenario_routed:
  \<open>json_format (route [''fields''] [''message'', ''severity''] json_default) thread_hex scenario_record =
     ''{"fields":{"message":"fatal error, please try again","severity":3},"timestamp":1449859055000000,"process":12345,"thread":"0xdead","key":42,"ip":"[::]"}''\<close>
  unfolding json_format_def json_tree_def scenario_fields
  by (simp add: place_def route_def json_default_def route_of_def name_of_def quoted_def
      escape_def integer_def decimal_scenario)




end
